theory Spec2Isabelle
  imports Main
begin

section \<open>JSON values and the JavaScript operations the validator applies to them\<close>

text \<open>
  The content files are JSON. A parsed file is a value of \<open>json\<close>; an object is the list
  of its own properties in enumeration order (what \<open>Object.keys\<close> walks), with distinct
  keys, as \<open>JSON.parse\<close> builds it. Numbers are the integers of the safe range; strings
  are lists of code units (one \<open>char\<close> each, so text up to U+00FF). A JavaScript value that
  may be \<open>undefined\<close> is a \<open>json option\<close>, \<open>None\<close> standing for \<open>undefined\<close>.
\<close>

datatype json =
    JNull
  | JBool bool
  | JNum int
  | JStr string
  | JArr "json list"
  | JObj "(string \<times> json) list"

type_synonym jsval = "json option"

datatype exn = SyntaxError (message: string) | TypeError (message: string)

text \<open>Decimal rendering of numbers inside template literals.\<close>

definition digit_char :: "nat \<Rightarrow> char" where
  "digit_char d = ''0123456789'' ! d"

fun show_nat :: "nat \<Rightarrow> string" where
  "show_nat n = (if n < 10 then [digit_char n] else show_nat (n div 10) @ [digit_char (n mod 10)])"

declare show_nat.simps [simp del]

definition show_int :: "int \<Rightarrow> string" where
  "show_int i = (if i < 0 then CHR ''-'' # show_nat (nat (- i)) else show_nat (nat i))"

text \<open>Truthiness (\<open>ToBoolean\<close>).\<close>

fun truthy :: "jsval \<Rightarrow> bool" where
  "truthy None = False"
| "truthy (Some JNull) = False"
| "truthy (Some (JBool b)) = b"
| "truthy (Some (JNum n)) = (n \<noteq> 0)"
| "truthy (Some (JStr s)) = (s \<noteq> [])"
| "truthy (Some (JArr xs)) = True"
| "truthy (Some (JObj kvs)) = True"

text \<open>
  Property read \<open>v.name\<close> for the field names the validator reads (none of them is a
  property of a prototype): a \<open>TypeError\<close> on \<open>null\<close> and \<open>undefined\<close>, the own property
  of an object, \<open>undefined\<close> on every other value.
\<close>

fun get_prop :: "jsval \<Rightarrow> string \<Rightarrow> exn + jsval" where
  "get_prop None k =
     Inl (TypeError (''Cannot read properties of undefined (reading '' @ [CHR 0x27] @ k @ [CHR 0x27] @ '')''))"
| "get_prop (Some JNull) k =
     Inl (TypeError (''Cannot read properties of null (reading '' @ [CHR 0x27] @ k @ [CHR 0x27] @ '')''))"
| "get_prop (Some (JObj kvs)) k = Inr (map_of kvs k)"
| "get_prop (Some v) k = Inr None"

text \<open>
  \<open>ToString\<close>. An array is its elements joined by a comma, \<open>null\<close> elements giving the
  empty string; an object is \<open>[object Object]\<close>, unless it has an own property
  \<open>toString\<close>, which (being JSON data) is not callable, so that the conversion throws.
\<close>

fun js_to_string :: "json \<Rightarrow> exn + string"
  and js_join :: "string \<Rightarrow> json list \<Rightarrow> exn + string" where
  "js_to_string JNull = Inr ''null''"
| "js_to_string (JBool b) = Inr (if b then ''true'' else ''false'')"
| "js_to_string (JNum n) = Inr (show_int n)"
| "js_to_string (JStr s) = Inr s"
| "js_to_string (JArr xs) = js_join '','' xs"
| "js_to_string (JObj kvs) =
     (if map_of kvs ''toString'' \<noteq> None
      then Inl (TypeError ''Cannot convert object to primitive value'')
      else Inr ''[object Object]'')"
| "js_join sep [] = Inr []"
| "js_join sep (x # xs) =
     (case (if x = JNull then Inr [] else js_to_string x) of
        Inl e \<Rightarrow> Inl e
      | Inr s \<Rightarrow>
          (if xs = [] then Inr s
           else (case js_join sep xs of Inl e \<Rightarrow> Inl e | Inr r \<Rightarrow> Inr (s @ sep @ r))))"

text \<open>A value inside a template literal: \<open>${v}\<close>.\<close>

fun template :: "jsval \<Rightarrow> exn + string" where
  "template None = Inr ''undefined''"
| "template (Some v) = js_to_string v"

text \<open>\<open>Array.prototype.join\<close> over values that may be \<open>undefined\<close>.\<close>

fun elem_string :: "jsval \<Rightarrow> exn + string" where
  "elem_string None = Inr []"
| "elem_string (Some JNull) = Inr []"
| "elem_string (Some v) = js_to_string v"

fun array_join :: "string \<Rightarrow> jsval list \<Rightarrow> exn + string" where
  "array_join sep [] = Inr []"
| "array_join sep (x # xs) =
     (case elem_string x of
        Inl e \<Rightarrow> Inl e
      | Inr s \<Rightarrow>
          (if xs = [] then Inr s
           else (case array_join sep xs of Inl e \<Rightarrow> Inl e | Inr r \<Rightarrow> Inr (s @ sep @ r))))"

text \<open>
  A \<open>Set\<close> in insertion order. Membership is \<open>SameValueZero\<close>: primitives by value,
  arrays and objects by identity, and two arrays or objects met in parsed files are
  never the same one.
\<close>

fun is_primitive :: "jsval \<Rightarrow> bool" where
  "is_primitive (Some (JArr xs)) = False"
| "is_primitive (Some (JObj kvs)) = False"
| "is_primitive v = True"

definition same_value_zero :: "jsval \<Rightarrow> jsval \<Rightarrow> bool" where
  "same_value_zero a b = (is_primitive a \<and> a = b)"

definition set_has :: "jsval list \<Rightarrow> jsval \<Rightarrow> bool" where
  "set_has s v = list_ex (\<lambda>x. same_value_zero x v) s"

definition set_add :: "jsval list \<Rightarrow> jsval \<Rightarrow> jsval list" where
  "set_add s v = (if set_has s v then s else s @ [v])"

definition new_Set :: "jsval list \<Rightarrow> jsval list" where
  "new_Set vs = foldl set_add [] vs"

text \<open>\<open>Object.keys\<close>: throws on \<open>null\<close>, lists the indices of a string or an array.\<close>

fun object_keys :: "json \<Rightarrow> exn + string list" where
  "object_keys JNull = Inl (TypeError ''Cannot convert undefined or null to object'')"
| "object_keys (JBool b) = Inr []"
| "object_keys (JNum n) = Inr []"
| "object_keys (JStr s) = Inr (map show_nat [0..<length s])"
| "object_keys (JArr xs) = Inr (map show_nat [0..<length xs])"
| "object_keys (JObj kvs) = Inr (map fst kvs)"

text \<open>Strings: \<open>includes\<close>, the number of pieces of \<open>split(/\s+/)\<close>, the order \<open><\<close>.\<close>

fun starts_with :: "string \<Rightarrow> string \<Rightarrow> bool" where
  "starts_with s [] = True"
| "starts_with [] (p # ps) = False"
| "starts_with (c # cs) (p # ps) = (c = p \<and> starts_with cs ps)"

fun str_includes :: "string \<Rightarrow> string \<Rightarrow> bool" where
  "str_includes [] p = (p = [])"
| "str_includes (c # cs) p = (starts_with (c # cs) p \<or> str_includes cs p)"

definition is_space :: "char \<Rightarrow> bool" where
  "is_space c = List.member [CHR 0x09, CHR 0x0A, CHR 0x0B, CHR 0x0C, CHR 0x0D, CHR 0x20, CHR 0xA0] c"

fun ws_runs :: "bool \<Rightarrow> string \<Rightarrow> nat" where
  "ws_runs prev [] = 0"
| "ws_runs prev (c # cs) =
     (if is_space c then (if prev then 0 else 1) + ws_runs True cs else ws_runs False cs)"

definition split_ws_length :: "string \<Rightarrow> nat" where
  "split_ws_length s = Suc (ws_runs False s)"

fun str_less :: "string \<Rightarrow> string \<Rightarrow> bool" where
  "str_less [] [] = False"
| "str_less [] (d # ds) = True"
| "str_less (c # cs) [] = False"
| "str_less (c # cs) (d # ds) =
     ((of_char c :: nat) < of_char d \<or> (c = d \<and> str_less cs ds))"


text \<open>
  The relational operator \<open><\<close>: both operands to primitives (arrays and objects through
  \<open>ToString\<close>), two strings compared as strings, anything else as numbers, a comparison
  with \<open>NaN\<close> being false. \<open>StringToNumber\<close> belongs to the language runtime and is a
  parameter; \<open>None\<close> is \<open>NaN\<close>.
\<close>

fun to_primitive :: "jsval \<Rightarrow> exn + jsval" where
  "to_primitive (Some (JArr xs)) = map_sum id (\<lambda>s. Some (JStr s)) (js_to_string (JArr xs))"
| "to_primitive (Some (JObj kvs)) = map_sum id (\<lambda>s. Some (JStr s)) (js_to_string (JObj kvs))"
| "to_primitive v = Inr v"

fun to_number :: "(string \<Rightarrow> int option) \<Rightarrow> jsval \<Rightarrow> int option" where
  "to_number sn None = None"
| "to_number sn (Some JNull) = Some 0"
| "to_number sn (Some (JBool b)) = Some (if b then 1 else 0)"
| "to_number sn (Some (JNum n)) = Some n"
| "to_number sn (Some (JStr s)) = sn s"
| "to_number sn (Some v) = None"

definition js_less :: "(string \<Rightarrow> int option) \<Rightarrow> jsval \<Rightarrow> jsval \<Rightarrow> exn + bool" where
  "js_less sn a b =
     (case to_primitive a of
        Inl e \<Rightarrow> Inl e
      | Inr pa \<Rightarrow>
          (case to_primitive b of
             Inl e \<Rightarrow> Inl e
           | Inr pb \<Rightarrow>
               Inr (case (pa, pb) of
                      (Some (JStr s), Some (JStr t)) \<Rightarrow> str_less s t
                    | _ \<Rightarrow>
                        (case (to_number sn pa, to_number sn pb) of
                           (Some x, Some y) \<Rightarrow> x < y
                         | _ \<Rightarrow> False))))"

text \<open>\<open>v.length\<close> and \<open>v.includes(p)\<close> on a field value.\<close>

fun js_length :: "jsval \<Rightarrow> exn + jsval" where
  "js_length (Some (JStr s)) = Inr (Some (JNum (int (length s))))"
| "js_length (Some (JArr xs)) = Inr (Some (JNum (int (length xs))))"
| "js_length v = get_prop v ''length''"

fun js_includes :: "string \<Rightarrow> jsval \<Rightarrow> string \<Rightarrow> exn + bool" where
  "js_includes expr (Some (JStr s)) p = Inr (str_includes s p)"
| "js_includes expr (Some (JArr xs)) p = Inr (list_ex (\<lambda>x. x = JStr p) xs)"
| "js_includes expr None p = map_sum id (\<lambda>u. False) (get_prop None ''includes'')"
| "js_includes expr (Some JNull) p = map_sum id (\<lambda>u. False) (get_prop (Some JNull) ''includes'')"
| "js_includes expr (Some v) p = Inl (TypeError (expr @ ''.includes is not a function''))"

text \<open>
  The iteration methods \<open>forEach\<close> and \<open>map\<close> exist on arrays only: the elements of an
  array, a \<open>TypeError\<close> on anything else. \<open>expr\<close> is the text of the receiver, which
  the message quotes.
\<close>

fun array_elements :: "string \<Rightarrow> string \<Rightarrow> json \<Rightarrow> exn + json list" where
  "array_elements expr meth (JArr xs) = Inr xs"
| "array_elements expr meth JNull = map_sum id (\<lambda>u. []) (get_prop (Some JNull) meth)"
| "array_elements expr meth v = Inl (TypeError (expr @ ''.'' @ meth @ '' is not a function''))"

text \<open>The regular expression of the DOI check, \<open>/^10\.\d{4,}\/[-._;()\/:a-zA-Z0-9]+$/\<close>.\<close>

definition is_digit :: "char \<Rightarrow> bool" where
  "is_digit c = List.member ''0123456789'' c"

definition is_lower :: "char \<Rightarrow> bool" where
  "is_lower c = List.member ''abcdefghijklmnopqrstuvwxyz'' c"

definition is_alpha :: "char \<Rightarrow> bool" where
  "is_alpha c = (is_lower c \<or> List.member ''ABCDEFGHIJKLMNOPQRSTUVWXYZ'' c)"

definition doi_char :: "char \<Rightarrow> bool" where
  "doi_char c = (is_alpha c \<or> is_digit c \<or> List.member ''-._;()/:'' c)"

definition doi_match :: "string \<Rightarrow> bool" where
  "doi_match s =
     (starts_with s ''10.'' \<and> 4 \<le> length (takeWhile is_digit (drop 3 s)) \<and>
      (case dropWhile is_digit (drop 3 s) of
         [] \<Rightarrow> False
       | c # rest \<Rightarrow> c = CHR ''/'' \<and> rest \<noteq> [] \<and> list_all doi_char rest))"

section \<open>The validator's state and its surroundings\<close>

record stats =
  filesValidated :: nat
  totalErrors :: nat
  totalWarnings :: nat
  validationTime :: int

record validator =
  errors :: "string list"
  warnings :: "string list"
  stats :: stats

text \<open>
  A content file that exists either parses to a value, or reading and parsing it throws
  with a message. The files are keyed by their path; \<open>directories\<close> tells which
  directories exist.
\<close>

datatype content_file = Unparsable string | Parsed json

record env =
  files :: "string \<Rightarrow> content_file option"
  directories :: "string \<Rightarrow> bool"

text \<open>
  The schema compiler (the \<open>ajv\<close> library) and \<open>StringToNumber\<close> come with the host, as
  do the readings of the clock. A compiled schema maps a value to its list of
  violations, empty when the value is valid.
\<close>

record ajv_error =
  instancePath :: string
  err_message :: string

datatype pattern =
    Pat_id          \<comment> \<open>\<open>^[a-z0-9-]+$\<close>\<close>
  | Pat_doi         \<comment> \<open>\<open>^10\.\<close>\<close>
  | Pat_locale_key  \<comment> \<open>\<open>^[a-zA-Z0-9._-]+$\<close>\<close>

datatype field_schema =
    String_schema "nat option" "nat option" "pattern option" "string list option"
      \<comment> \<open>minLength, maxLength, pattern, enum\<close>
  | Integer_schema int int
      \<comment> \<open>minimum, maximum\<close>
  | Boolean_schema
  | Strings_schema nat nat
      \<comment> \<open>an array of strings: minItems, maxItems\<close>

datatype schema =
  Object_schema "string list" "(string \<times> field_schema) list" "(pattern \<times> field_schema) list"
    \<comment> \<open>required, properties, patternProperties; additionalProperties is false\<close>

record host =
  ajv_compile :: "schema \<Rightarrow> json \<Rightarrow> ajv_error list"
  string_to_number :: "string \<Rightarrow> int option"
  currentYear :: int
  startTime :: int
  endTime :: int
  timestamp :: string

definition supportedLanguages :: "string list" where
  "supportedLanguages = [''en'', ''de'', ''fr'', ''es'']"

definition contentTypes :: "string list" where
  "contentTypes = [''habits'', ''research'', ''locales'']"

definition initial :: validator where
  "initial = \<lparr>errors = [], warnings = [],
     stats = \<lparr>filesValidated = 0, totalErrors = 0, totalWarnings = 0, validationTime = 0\<rparr>\<rparr>"

definition categories :: "string list" where
  "categories = [''sleep'', ''productivity'', ''health'', ''mindfulness'', ''nutrition'', ''exercise'']"

definition habit_schema :: schema where
  "habit_schema = Object_schema
     [''id'', ''title'', ''description'', ''category'', ''difficulty'', ''timeMinutes'', ''language'']
     [(''id'', String_schema None None (Some Pat_id) None),
      (''title'', String_schema (Some 5) (Some 100) None None),
      (''description'', String_schema (Some 20) (Some 500) None None),
      (''category'', String_schema None None None (Some categories)),
      (''difficulty'', String_schema None None None (Some [''beginner'', ''intermediate'', ''advanced''])),
      (''timeMinutes'', Integer_schema 1 180),
      (''language'', String_schema None None None (Some supportedLanguages)),
      (''researchBacked'', Boolean_schema),
      (''sources'', Strings_schema 0 10)]
     []"

definition research_schema :: "int \<Rightarrow> schema" where
  "research_schema year = Object_schema
     [''id'', ''title'', ''summary'', ''authors'', ''year'', ''journal'', ''category'',
      ''evidenceLevel'', ''qualityScore'', ''language'']
     [(''id'', String_schema None None (Some Pat_id) None),
      (''title'', String_schema (Some 10) (Some 200) None None),
      (''summary'', String_schema (Some 50) (Some 1000) None None),
      (''authors'', String_schema (Some 5) (Some 200) None None),
      (''year'', Integer_schema 1990 (year + 1)),
      (''journal'', String_schema (Some 5) (Some 100) None None),
      (''doi'', String_schema None None (Some Pat_doi) None),
      (''category'', String_schema None None None (Some categories)),
      (''evidenceLevel'', String_schema None None None
         (Some [''systematic_review'', ''rct'', ''observational'', ''case_study''])),
      (''qualityScore'', Integer_schema 0 100),
      (''language'', String_schema None None None (Some supportedLanguages))]
     []"

definition locales_schema :: schema where
  "locales_schema = Object_schema [] []
     [(Pat_locale_key, String_schema (Some 1) (Some 200) None None)]"

definition schemas :: "int \<Rightarrow> (string \<times> schema) list" where
  "schemas year =
     [(''habit'', habit_schema), (''research'', research_schema year), (''locales'', locales_schema)]"

text \<open>\<open>loadSchemas\<close>: every schema compiled, under the name it has in \<open>schemas\<close>.\<close>

definition loadSchemas :: "host \<Rightarrow> (string \<times> (json \<Rightarrow> ajv_error list)) list" where
  "loadSchemas h = map (\<lambda>(schemaName, s). (schemaName, ajv_compile h s)) (schemas (currentYear h))"

definition addError :: "string \<Rightarrow> validator \<Rightarrow> validator" where
  "addError msg v =
     v\<lparr>errors := errors v @ [msg],
       stats := (stats v)\<lparr>totalErrors := totalErrors (stats v) + 1\<rparr>\<rparr>"

definition addWarning :: "string \<Rightarrow> validator \<Rightarrow> validator" where
  "addWarning msg v =
     v\<lparr>warnings := warnings v @ [msg],
       stats := (stats v)\<lparr>totalWarnings := totalWarnings (stats v) + 1\<rparr>\<rparr>"

definition content_path :: "string \<Rightarrow> string \<Rightarrow> string" where
  "content_path contentType language = ''src/content/'' @ contentType @ ''/'' @ language @ ''.json''"

text \<open>
  A statement either completes or throws; what it did to the validator before it threw
  stays done. \<open>andThen\<close> sequences two statements, \<open>evaluate\<close> evaluates an expression that
  may throw and hands its value on, \<open>forEach\<close> is the loop over an array with the index.
\<close>

definition andThen ::
  "exn option \<times> 's \<Rightarrow> ('s \<Rightarrow> exn option \<times> 's) \<Rightarrow> exn option \<times> 's" where
  "andThen r k = (case r of (None, v) \<Rightarrow> k v | (Some e, v) \<Rightarrow> (Some e, v))"

definition evaluate :: "exn + 'a \<Rightarrow> ('a \<Rightarrow> 's \<Rightarrow> exn option \<times> 's) \<Rightarrow> 's \<Rightarrow> exn option \<times> 's" where
  "evaluate x k v = (case x of Inl e \<Rightarrow> (Some e, v) | Inr a \<Rightarrow> k a v)"

fun forEach ::
  "('a \<Rightarrow> nat \<Rightarrow> 's \<Rightarrow> exn option \<times> 's) \<Rightarrow> 'a list \<Rightarrow> nat \<Rightarrow> 's \<Rightarrow> exn option \<times> 's" where
  "forEach f [] i v = (None, v)"
| "forEach f (x # xs) i v =
     (case f x i v of
        (None, v') \<Rightarrow> forEach f xs (Suc i) v'
      | (Some e, v') \<Rightarrow> (Some e, v'))"


section \<open>Validation of one content file\<close>

definition item_location :: "string \<Rightarrow> nat \<Rightarrow> string" where
  "item_location filePath index = filePath @ ''['' @ show_nat index @ '']''"

definition validateHabitSpecific ::
  "host \<Rightarrow> json \<Rightarrow> string \<Rightarrow> nat \<Rightarrow> validator \<Rightarrow> exn option \<times> validator" where
  "validateHabitSpecific h habit filePath index v =
     andThen
       (evaluate (get_prop (Some habit) ''researchBacked'') (\<lambda>researchBacked.
        evaluate (get_prop (Some habit) ''sources'') (\<lambda>sources v.
          if truthy researchBacked \<and> (\<not> truthy sources \<or> js_length sources = Inr (Some (JNum 0)))
          then (None, addWarning (item_location filePath index @
                  '': Habit marked as research-backed but has no sources'') v)
          else (None, v))) v)
       (\<lambda>v. andThen
          (evaluate (get_prop (Some habit) ''timeMinutes'') (\<lambda>timeMinutes.
           evaluate (js_less (string_to_number h) (Some (JNum 60)) timeMinutes) (\<lambda>long.
           evaluate (get_prop (Some habit) ''difficulty'') (\<lambda>difficulty v.
             if long \<and> difficulty = Some (JStr ''beginner'')
             then evaluate (template timeMinutes) (\<lambda>t v.
                    (None, addWarning (item_location filePath index @
                       '': Long duration ('' @ t @ ''min) for beginner habit'') v)) v
             else (None, v)))) v)
          (evaluate (get_prop (Some habit) ''title'') (\<lambda>title.
           evaluate (js_length title) (\<lambda>len.
           evaluate (js_less (string_to_number h) len (Some (JNum 10))) (\<lambda>short v.
             if short
             then evaluate (template title) (\<lambda>t v.
                    (None, addWarning (item_location filePath index @
                       '': Title may be too short: '' @ [CHR 0x22] @ t @ [CHR 0x22]) v)) v
             else (None, v))))))"

text \<open>
  \<open>evidenceQualityMap[key]\<close>: the four own properties of the literal, and below them
  the members every object inherits, which the comparison that follows reads through
  \<open>ToPrimitive\<close>, that is as the text of a built-in function.
\<close>

definition evidenceQualityMap :: "(string \<times> int) list" where
  "evidenceQualityMap =
     [(''systematic_review'', 80), (''rct'', 70), (''observational'', 60), (''case_study'', 40)]"

definition inherited_members :: "(string \<times> string) list" where
  "inherited_members =
     (''constructor'', ''function Object() { [native code] }'') #
     (''__proto__'', ''[object Object]'') #
     map (\<lambda>n. (n, ''function '' @ n @ ''() { [native code] }''))
       [''__defineGetter__'', ''__defineSetter__'', ''hasOwnProperty'', ''__lookupGetter__'',
        ''__lookupSetter__'', ''isPrototypeOf'', ''propertyIsEnumerable'', ''toString'',
        ''valueOf'', ''toLocaleString'']"

definition expectedMinQuality :: "string \<Rightarrow> jsval" where
  "expectedMinQuality key =
     (case map_of evidenceQualityMap key of
        Some q \<Rightarrow> Some (JNum q)
      | None \<Rightarrow> map_option JStr (map_of inherited_members key))"

definition validateResearchSpecific ::
  "host \<Rightarrow> json \<Rightarrow> string \<Rightarrow> nat \<Rightarrow> validator \<Rightarrow> exn option \<times> validator" where
  "validateResearchSpecific h research filePath index v =
     andThen
       (evaluate (get_prop (Some research) ''doi'') (\<lambda>doi v.
          if truthy doi
          then (case doi of
                  Some (JStr s) \<Rightarrow>
                    if doi_match s then (None, v)
                    else (None, addWarning (item_location filePath index @
                            '': DOI format may be invalid: '' @ s) v)
                | _ \<Rightarrow> (Some (TypeError ''research.doi.match is not a function''), v))
          else (None, v)) v)
       (\<lambda>v. andThen
          (evaluate (get_prop (Some research) ''evidenceLevel'') (\<lambda>evidenceLevel.
           evaluate (template evidenceLevel) (\<lambda>key.
           evaluate (get_prop (Some research) ''qualityScore'') (\<lambda>qualityScore.
           evaluate (js_less (string_to_number h) qualityScore (expectedMinQuality key)) (\<lambda>low v.
             if low
             then evaluate (template qualityScore) (\<lambda>q v.
                    (None, addWarning (item_location filePath index @
                       '': Quality score ('' @ q @ '') seems low for '' @ key) v)) v
             else (None, v))))) v)
          (evaluate (get_prop (Some research) ''year'') (\<lambda>year.
           evaluate (js_less (string_to_number h) year (Some (JNum (currentYear h - 10)))) (\<lambda>old v.
             if old
             then evaluate (template year) (\<lambda>y v.
                    (None, addWarning (item_location filePath index @
                       '': Research is over 10 years old ('' @ y @ '')'') v)) v
             else (None, v)))))"

text \<open>
  \<open>validateContentItem\<close> looks the compiled schema up under the content type it is given
  and calls it; calling what the lookup did not find throws.
\<close>

definition validateContentItem ::
  "host \<Rightarrow> (string \<times> (json \<Rightarrow> ajv_error list)) list \<Rightarrow> json \<Rightarrow> string \<Rightarrow> string \<Rightarrow> string \<Rightarrow> nat
     \<Rightarrow> validator \<Rightarrow> exn option \<times> validator" where
  "validateContentItem h compiledSchemas item contentType language filePath index v =
     (case map_of compiledSchemas contentType of
        None \<Rightarrow> (Some (TypeError ''validate is not a function''), v)
      | Some validate \<Rightarrow>
          andThen
            (None, foldl (\<lambda>v error. addError (item_location filePath index @ '': '' @
                       instancePath error @ '' '' @ err_message error) v) v (validate item))
            (\<lambda>v. andThen
               (if contentType = ''habit'' then validateHabitSpecific h item filePath index v
                else if contentType = ''research'' then validateResearchSpecific h item filePath index v
                else (None, v))
               (evaluate (get_prop (Some item) ''language'') (\<lambda>itemLanguage v.
                  if truthy itemLanguage \<and> itemLanguage \<noteq> Some (JStr language)
                  then evaluate (template itemLanguage) (\<lambda>got v.
                         (None, addWarning (item_location filePath index @
                            '': Language mismatch (expected '' @ language @ '', got '' @ got @ '')'') v)) v
                  else (None, v)))))"

definition validateContentFile ::
  "host \<Rightarrow> (string \<times> (json \<Rightarrow> ajv_error list)) list \<Rightarrow> json \<Rightarrow> string \<Rightarrow> string \<Rightarrow> string
     \<Rightarrow> validator \<Rightarrow> exn option \<times> validator" where
  "validateContentFile h compiledSchemas content contentType language filePath v =
     (if contentType = ''locales''
      then (case map_of compiledSchemas ''locales'' of
              None \<Rightarrow> (Some (TypeError ''validate is not a function''), v)
            | Some validate \<Rightarrow>
                (None, foldl (\<lambda>v error. addError (filePath @ '': '' @
                          instancePath error @ '' '' @ err_message error) v) v (validate content)))
      else (case content of
              JArr items \<Rightarrow>
                forEach (\<lambda>item index.
                  validateContentItem h compiledSchemas item contentType language filePath index)
                  items 0 v
            | _ \<Rightarrow> (None, addError (filePath @ '': Content must be an array'') v)))"

text \<open>
  The body of the loop of \<open>validateContentType\<close>, for one language: a missing file is a
  warning; anything thrown while the file is read, parsed or validated is caught and
  reported as invalid JSON; the file is counted when nothing was thrown.
\<close>

definition validateContentTypeFile ::
  "host \<Rightarrow> (string \<times> (json \<Rightarrow> ajv_error list)) list \<Rightarrow> env \<Rightarrow> string \<Rightarrow> string
     \<Rightarrow> validator \<Rightarrow> validator" where
  "validateContentTypeFile h compiledSchemas e contentType language v =
     (let filePath = content_path contentType language in
      case files e filePath of
        None \<Rightarrow>
          addWarning (''Missing '' @ contentType @ '' file for '' @ language @ '': '' @ filePath) v
      | Some (Unparsable msg) \<Rightarrow> addError (''Invalid JSON in '' @ filePath @ '': '' @ msg) v
      | Some (Parsed content) \<Rightarrow>
          (case validateContentFile h compiledSchemas content contentType language filePath v of
             (None, v') \<Rightarrow>
               v'\<lparr>stats := (stats v')\<lparr>filesValidated := filesValidated (stats v') + 1\<rparr>\<rparr>
           | (Some error, v') \<Rightarrow>
               addError (''Invalid JSON in '' @ filePath @ '': '' @ message error) v'))"

definition validateContentType ::
  "host \<Rightarrow> (string \<times> (json \<Rightarrow> ajv_error list)) list \<Rightarrow> env \<Rightarrow> string \<Rightarrow> validator \<Rightarrow> validator" where
  "validateContentType h compiledSchemas e contentType v =
     foldl (\<lambda>v language. validateContentTypeFile h compiledSchemas e contentType language v)
       v supportedLanguages"

definition requiredDirs :: "string list" where
  "requiredDirs =
     [''src/content/habits'', ''src/content/research'', ''src/content/locales'',
      ''src/content/metadata'']"

definition validateContentStructure :: "env \<Rightarrow> validator \<Rightarrow> validator" where
  "validateContentStructure e v =
     foldl (\<lambda>v contentType.
         foldl (\<lambda>v language.
             if files e (content_path contentType language) = None
             then addWarning (''Missing content file: '' @ content_path contentType language) v
             else v)
           v supportedLanguages)
       (foldl (\<lambda>v dir.
            if directories e dir then v else addError (''Missing required directory: '' @ dir) v)
          v requiredDirs)
       contentTypes"


section \<open>Cross-references\<close>

text \<open>
  \<open>validateCrossReferences\<close> reads the files again, outside any \<open>try\<close>: what reading,
  parsing or walking a file throws leaves the function.
\<close>

fun collect_ids :: "json list \<Rightarrow> jsval list \<Rightarrow> exn + jsval list" where
  "collect_ids [] ids = Inr ids"
| "collect_ids (item # items) ids =
     (case get_prop (Some item) ''id'' of
        Inl e \<Rightarrow> Inl e
      | Inr i \<Rightarrow> collect_ids items (set_add ids i))"

fun loadResearchIds :: "env \<Rightarrow> string list \<Rightarrow> jsval list \<Rightarrow> exn + jsval list" where
  "loadResearchIds e [] allResearchIds = Inr allResearchIds"
| "loadResearchIds e (language # languages) allResearchIds =
     (case files e (content_path ''research'' language) of
        None \<Rightarrow> loadResearchIds e languages allResearchIds
      | Some (Unparsable msg) \<Rightarrow> Inl (SyntaxError msg)
      | Some (Parsed research) \<Rightarrow>
          (case array_elements ''research'' ''forEach'' research of
             Inl err \<Rightarrow> Inl err
           | Inr items \<Rightarrow>
               (case collect_ids items allResearchIds of
                  Inl err \<Rightarrow> Inl err
                | Inr ids \<Rightarrow> loadResearchIds e languages ids)))"

definition checkHabitSources ::
  "jsval list \<Rightarrow> string \<Rightarrow> json \<Rightarrow> nat \<Rightarrow> validator \<Rightarrow> exn option \<times> validator" where
  "checkHabitSources allResearchIds filePath habit index v =
     evaluate (get_prop (Some habit) ''sources'') (\<lambda>sources v.
       case sources of
         None \<Rightarrow> (None, v)
       | Some src \<Rightarrow>
           if truthy (Some src)
           then evaluate (array_elements ''habit.sources'' ''forEach'' src) (\<lambda>sourceIds.
                  forEach (\<lambda>sourceId i v.
                    if \<not> set_has allResearchIds (Some sourceId)
                    then evaluate (template (Some sourceId)) (\<lambda>s v.
                           (None, addWarning (item_location filePath index @
                              '': References unknown research: '' @ s) v)) v
                    else (None, v))
                    sourceIds 0) v
           else (None, v)) v"

definition checkHabitFile ::
  "env \<Rightarrow> jsval list \<Rightarrow> string \<Rightarrow> validator \<Rightarrow> exn option \<times> validator" where
  "checkHabitFile e allResearchIds language v =
     (let filePath = content_path ''habits'' language in
      case files e filePath of
        None \<Rightarrow> (None, v)
      | Some (Unparsable msg) \<Rightarrow> (Some (SyntaxError msg), v)
      | Some (Parsed habits) \<Rightarrow>
          evaluate (array_elements ''habits'' ''forEach'' habits)
            (\<lambda>items. forEach (checkHabitSources allResearchIds filePath) items 0) v)"

definition validateCrossReferences :: "env \<Rightarrow> validator \<Rightarrow> exn option \<times> validator" where
  "validateCrossReferences e v =
     evaluate (loadResearchIds e supportedLanguages [])
       (\<lambda>allResearchIds.
          forEach (\<lambda>language i. checkHabitFile e allResearchIds language) supportedLanguages 0) v"

section \<open>Translation completeness\<close>

definition emptyContent :: "string \<Rightarrow> json" where
  "emptyContent contentType = (if contentType = ''locales'' then JObj [] else JArr [])"

definition loadContentSafely :: "env \<Rightarrow> string \<Rightarrow> string \<Rightarrow> validator \<Rightarrow> json \<times> validator" where
  "loadContentSafely e contentType language v =
     (let filePath = content_path contentType language in
      case files e filePath of
        Some (Parsed content) \<Rightarrow> (content, v)
      | Some (Unparsable msg) \<Rightarrow>
          (emptyContent contentType, addError (''Failed to load '' @ filePath @ '': '' @ msg) v)
      | None \<Rightarrow> (emptyContent contentType, v))"

fun ids_of :: "json list \<Rightarrow> exn + jsval list" where
  "ids_of [] = Inr []"
| "ids_of (item # items) =
     (case get_prop (Some item) ''id'' of
        Inl e \<Rightarrow> Inl e
      | Inr i \<Rightarrow> (case ids_of items of Inl e \<Rightarrow> Inl e | Inr is \<Rightarrow> Inr (i # is)))"

text \<open>\<open>new Set(content.map(x => x.id))\<close>\<close>

definition id_set :: "string \<Rightarrow> json \<Rightarrow> exn + jsval list" where
  "id_set expr content =
     (case array_elements expr ''map'' content of
        Inl e \<Rightarrow> Inl e
      | Inr items \<Rightarrow> map_sum id new_Set (ids_of items))"

text \<open>\<open>new Set(Object.keys(content))\<close>\<close>

definition key_set :: "json \<Rightarrow> exn + jsval list" where
  "key_set content = map_sum id (\<lambda>keys. new_Set (map (\<lambda>k. Some (JStr k)) keys)) (object_keys content)"

text \<open>\<open>[...baseline].filter(id => !other.has(id))\<close>\<close>

definition missing_from :: "jsval list \<Rightarrow> jsval list \<Rightarrow> jsval list" where
  "missing_from baseline other = filter (\<lambda>i. \<not> set_has other i) baseline"

text \<open>\<open>missing.slice(0, n).join(', ')\<close> followed by the dots when there are more.\<close>

definition preview :: "nat \<Rightarrow> jsval list \<Rightarrow> exn + string" where
  "preview n missing =
     map_sum id (\<lambda>s. s @ (if n < length missing then ''...'' else []))
       (array_join '', '' (take n missing))"

definition otherLanguages :: "string list" where
  "otherLanguages = filter (\<lambda>l. l \<noteq> ''en'') supportedLanguages"

text \<open>
  The three blocks of \<open>validateTranslationCompleteness\<close> are one loop each, over the
  languages other than English; the first two differ in the content type, in the names
  of their variables and in the length of the preview, and share \<open>checkTranslations\<close>.
\<close>

definition checkTranslations ::
  "env \<Rightarrow> string \<Rightarrow> string \<Rightarrow> nat \<Rightarrow> jsval list \<Rightarrow> string \<Rightarrow> validator \<Rightarrow> exn option \<times> validator" where
  "checkTranslations e contentType expr n englishIds language v =
     (case loadContentSafely e contentType language v of
        (content, v) \<Rightarrow>
          evaluate (id_set expr content) (\<lambda>langIds v.
            let missing = missing_from englishIds langIds in
            if 0 < length missing
            then evaluate (preview n missing) (\<lambda>names v.
                   (None, addWarning (''Missing '' @ language @ '' translations for '' @
                      contentType @ '': '' @ names) v)) v
            else (None, v)) v)"

definition checkRecordCompleteness ::
  "env \<Rightarrow> string \<Rightarrow> string \<Rightarrow> string \<Rightarrow> nat \<Rightarrow> validator \<Rightarrow> exn option \<times> validator" where
  "checkRecordCompleteness e contentType englishExpr expr n v =
     (case loadContentSafely e contentType ''en'' v of
        (english, v) \<Rightarrow>
          evaluate (id_set englishExpr english) (\<lambda>englishIds.
            forEach (\<lambda>language i. checkTranslations e contentType expr n englishIds language)
              otherLanguages 0) v)"

definition checkLocaleKeys ::
  "env \<Rightarrow> jsval list \<Rightarrow> string \<Rightarrow> validator \<Rightarrow> exn option \<times> validator" where
  "checkLocaleKeys e englishKeys language v =
     (case loadContentSafely e ''locales'' language v of
        (langLocales, v) \<Rightarrow>
          evaluate (key_set langLocales) (\<lambda>langKeys v.
            let missing = missing_from englishKeys langKeys in
            if 0 < length missing
            then evaluate (preview 5 missing) (\<lambda>names v.
                   (None, addWarning (''Missing '' @ language @ '' locale keys: '' @ names) v)) v
            else (None, v)) v)"

definition checkLocaleCompleteness :: "env \<Rightarrow> validator \<Rightarrow> exn option \<times> validator" where
  "checkLocaleCompleteness e v =
     (case loadContentSafely e ''locales'' ''en'' v of
        (englishLocales, v) \<Rightarrow>
          evaluate (key_set englishLocales) (\<lambda>englishKeys.
            forEach (\<lambda>language i. checkLocaleKeys e englishKeys language) otherLanguages 0) v)"

definition validateTranslationCompleteness :: "env \<Rightarrow> validator \<Rightarrow> exn option \<times> validator" where
  "validateTranslationCompleteness e v =
     andThen (checkRecordCompleteness e ''habits'' ''englishHabits'' ''langHabits'' 5 v)
       (\<lambda>v. andThen (checkRecordCompleteness e ''research'' ''englishResearch'' ''langResearch'' 3 v)
          (checkLocaleCompleteness e))"


section \<open>Content quality\<close>

text \<open>
  The two callbacks of \<open>validateContentQuality\<close> differ in the label, the text field
  (\<open>description\<close> or \<open>summary\<close>), the name of the callback's parameter and the least
  word count. The state they update is the validator with the two counters
  \<open>totalWordCount\<close> and \<open>contentItems\<close>.
\<close>

definition qualityItem ::
  "string \<Rightarrow> string \<Rightarrow> string \<Rightarrow> nat \<Rightarrow> json \<Rightarrow> nat \<Rightarrow> validator \<times> nat \<times> nat
     \<Rightarrow> exn option \<times> validator \<times> nat \<times> nat" where
  "qualityItem label var field minWords item index st =
     evaluate (get_prop (Some item) ''title'') (\<lambda>title.
     evaluate (template title) (\<lambda>titleText.
     evaluate (get_prop (Some item) field) (\<lambda>body.
     evaluate (template body) (\<lambda>bodyText st.
       case st of (v, totalWordCount, contentItems) \<Rightarrow>
         let wordCount = split_ws_length (titleText @ '' '' @ bodyText);
             counted = (v, totalWordCount + wordCount, contentItems + 1)
         in andThen
              (if wordCount < minWords
               then evaluate (get_prop (Some item) ''id'') (\<lambda>i.
                    evaluate (template i) (\<lambda>name st.
                      case st of (v, t, n) \<Rightarrow>
                        (None, (addWarning (label @ '' '' @ name @ '' has low word count ('' @
                                  show_nat wordCount @ '' words)'') v, t, n)))) counted
               else (None, counted))
              (evaluate (js_includes (var @ ''.'' @ field) body ''TODO'') (\<lambda>todo.
               evaluate (if todo then Inr True
                         else js_includes (var @ ''.'' @ field) body ''placeholder'') (\<lambda>marked st.
                 if marked
                 then evaluate (get_prop (Some item) ''id'') (\<lambda>i.
                      evaluate (template i) (\<lambda>name st.
                        case st of (v, t, n) \<Rightarrow>
                          (None, (addError (label @ '' '' @ name @ '' contains placeholder text'') v,
                                  t, n)))) st
                 else (None, st)))))))) st"

definition qualityFile ::
  "env \<Rightarrow> string \<Rightarrow> string \<Rightarrow> string \<Rightarrow> string \<Rightarrow> string \<Rightarrow> nat \<Rightarrow> string \<Rightarrow> validator \<times> nat \<times> nat
     \<Rightarrow> exn option \<times> validator \<times> nat \<times> nat" where
  "qualityFile e contentType expr label var field minWords language st =
     (case st of (v, t, n) \<Rightarrow>
        (case loadContentSafely e contentType language v of
           (content, v) \<Rightarrow>
             evaluate (array_elements expr ''forEach'' content)
               (\<lambda>items. forEach (qualityItem label var field minWords) items 0) (v, t, n)))"

definition qualityLanguage ::
  "env \<Rightarrow> string \<Rightarrow> nat \<Rightarrow> validator \<times> nat \<times> nat \<Rightarrow> exn option \<times> validator \<times> nat \<times> nat" where
  "qualityLanguage e language i st =
     andThen (qualityFile e ''habits'' ''habits'' ''Habit'' ''habit'' ''description'' 20 language st)
       (qualityFile e ''research'' ''research'' ''Research'' ''article'' ''summary'' 30 language)"

text \<open>
  \<open>Math.round(totalWordCount / contentItems)\<close>: \<open>NaN\<close> when nothing was counted, and
  otherwise the quotient rounded half up.
\<close>

definition averageWordCount :: "nat \<Rightarrow> nat \<Rightarrow> nat option" where
  "averageWordCount totalWordCount contentItems =
     (if contentItems = 0 then None
      else Some ((2 * totalWordCount + contentItems) div (2 * contentItems)))"

definition validateContentQuality :: "env \<Rightarrow> validator \<Rightarrow> exn option \<times> validator" where
  "validateContentQuality e v =
     (case forEach (qualityLanguage e) supportedLanguages 0 (v, 0, 0) of
        (Some err, (v, t, n)) \<Rightarrow> (Some err, v)
      | (None, (v, totalWordCount, contentItems)) \<Rightarrow>
          (case averageWordCount totalWordCount contentItems of
             None \<Rightarrow> (None, v)
           | Some average \<Rightarrow>
               if average < 50
               then (None, addWarning ''Overall content word count is below recommended minimum'' v)
               else (None, v)))"

section \<open>The report and the run\<close>

record report =
  report_timestamp :: string
  statistics :: stats
  report_errors :: "string list"
  report_warnings :: "string list"
  passed :: bool

text \<open>\<open>generateReport\<close> builds the report and exits with the code it returns here.\<close>

definition generateReport :: "string \<Rightarrow> validator \<Rightarrow> report \<times> nat" where
  "generateReport now v =
     (\<lparr>report_timestamp = now, statistics = stats v, report_errors = errors v,
       report_warnings = warnings v, passed = (length (errors v) = 0)\<rparr>,
      if 0 < length (errors v) then 1 else 0)"

text \<open>
  The stages of \<open>validateAll\<close>, in order. The run ends in \<open>generateReport\<close>, or, when a
  stage throws, in the \<open>catch\<close> of \<open>validateAll\<close>, which prints the message and exits
  with code 1 without a report.
\<close>

definition validateStages :: "host \<Rightarrow> env \<Rightarrow> exn option \<times> validator" where
  "validateStages h e =
     andThen
       (None, foldl (\<lambda>v contentType. validateContentType h (loadSchemas h) e contentType v)
                (validateContentStructure e initial) contentTypes)
       (\<lambda>v. andThen (validateCrossReferences e v)
          (\<lambda>v. andThen (validateTranslationCompleteness e v)
             (validateContentQuality e)))"

datatype outcome = Reported report nat | Failed string

definition validateAll :: "host \<Rightarrow> env \<Rightarrow> outcome" where
  "validateAll h e =
     (case validateStages h e of
        (Some error, v) \<Rightarrow> Failed (message error)
      | (None, v) \<Rightarrow>
          (case generateReport (timestamp h)
                  (v\<lparr>stats := (stats v)\<lparr>validationTime := endTime h - startTime h\<rparr>\<rparr>) of
             (r, code) \<Rightarrow> Reported r code))"

fun exit_code :: "outcome \<Rightarrow> nat" where
  "exit_code (Reported r code) = code"
| "exit_code (Failed msg) = 1"


section \<open>The duplicate check of the content tests\<close>






section \<open>The duplicate check of the goal-content script\<close>



section \<open>Notions the properties are stated with\<close>

text \<open>The counters agree with the lists they count.\<close>

definition consistent :: "validator \<Rightarrow> bool" where
  "consistent v =
     (totalErrors (stats v) = length (errors v) \<and> totalWarnings (stats v) = length (warnings v))"




fun join_strings :: "string \<Rightarrow> string list \<Rightarrow> string" where
  "join_strings sep [] = []"
| "join_strings sep [x] = x"
| "join_strings sep (x # y # ys) = x @ sep @ join_strings sep (y # ys)"

definition first_occurrences :: "string list \<Rightarrow> string list" where
  "first_occurrences xs = rev (remdups (rev xs))"

text \<open>
  The completeness warnings the specification asks for, for one content type and one
  language: none when nothing of the baseline is missing, and otherwise one warning that
  lists the first \<open>n\<close> missing names, with dots when there are more.
\<close>

definition gap_warning :: "string \<Rightarrow> nat \<Rightarrow> string list \<Rightarrow> string list \<Rightarrow> string list" where
  "gap_warning prefix n baseline other =
     (let missing = filter (\<lambda>s. \<not> List.member other s) (first_occurrences baseline) in
      if missing = [] then []
      else [prefix @ join_strings '', '' (take n missing) @ (if n < length missing then ''...'' else [])])"

text \<open>A report without the two readings of the clock it records.\<close>

fun without_times :: "outcome \<Rightarrow> outcome" where
  "without_times (Reported r code) =
     Reported (r\<lparr>report_timestamp := [], statistics := (statistics r)\<lparr>validationTime := 0\<rparr>\<rparr>) code"
| "without_times (Failed msg) = Failed msg"

section \<open>Conformance to a schema\<close>

text \<open>
  What the keywords of the three schemas mean (JSON Schema): the value has the type, a
  string keeps the length bounds, matches the pattern and is one of the enumeration, an
  integer lies between the bounds, an array of strings keeps its bounds, and an object
  has every required property, has every declared property and every property matched
  by a pattern conforming, and has no property that is neither declared nor matched.
\<close>

fun pattern_test :: "pattern \<Rightarrow> string \<Rightarrow> bool" where
  "pattern_test Pat_id s = (s \<noteq> [] \<and> list_all (\<lambda>c. is_lower c \<or> is_digit c \<or> c = CHR ''-'') s)"
| "pattern_test Pat_doi s = starts_with s ''10.''"
| "pattern_test Pat_locale_key s =
     (s \<noteq> [] \<and> list_all (\<lambda>c. is_alpha c \<or> is_digit c \<or> List.member ''._-'' c) s)"

fun conforms_field :: "field_schema \<Rightarrow> json \<Rightarrow> bool" where
  "conforms_field (String_schema minLength maxLength pat enum) j =
     (case j of
        JStr s \<Rightarrow>
          (case minLength of None \<Rightarrow> True | Some n \<Rightarrow> n \<le> length s) \<and>
          (case maxLength of None \<Rightarrow> True | Some n \<Rightarrow> length s \<le> n) \<and>
          (case pat of None \<Rightarrow> True | Some p \<Rightarrow> pattern_test p s) \<and>
          (case enum of None \<Rightarrow> True | Some allowed \<Rightarrow> List.member allowed s)
      | _ \<Rightarrow> False)"
| "conforms_field (Integer_schema minimum maximum) j =
     (case j of JNum n \<Rightarrow> minimum \<le> n \<and> n \<le> maximum | _ \<Rightarrow> False)"
| "conforms_field Boolean_schema j = (case j of JBool b \<Rightarrow> True | _ \<Rightarrow> False)"
| "conforms_field (Strings_schema minItems maxItems) j =
     (case j of
        JArr xs \<Rightarrow>
          minItems \<le> length xs \<and> length xs \<le> maxItems \<and>
          list_all (\<lambda>x. case x of JStr s \<Rightarrow> True | _ \<Rightarrow> False) xs
      | _ \<Rightarrow> False)"

fun conforms :: "schema \<Rightarrow> json \<Rightarrow> bool" where
  "conforms (Object_schema required properties patternProperties) j =
     (case j of
        JObj kvs \<Rightarrow>
          list_all (\<lambda>name. map_of kvs name \<noteq> None) required \<and>
          list_all (\<lambda>(name, value).
              (case map_of properties name of
                 Some s \<Rightarrow> conforms_field s value
               | None \<Rightarrow> list_ex (\<lambda>(p, s). pattern_test p name) patternProperties) \<and>
              list_all (\<lambda>(p, s). if pattern_test p name then conforms_field s value else True)
                patternProperties)
            kvs
      | _ \<Rightarrow> False)"





text \<open>The tree with one more file, or with another content for a file.\<close>

definition put_file :: "env \<Rightarrow> string \<Rightarrow> content_file \<Rightarrow> env" where
  "put_file e filePath content = e\<lparr>files := (files e)(filePath \<mapsto> content)\<rparr>"

text \<open>The same for the state of the quality stage, which carries two counters more.\<close>

definition counted :: "validator \<times> nat \<times> nat \<Rightarrow> bool" where
  "counted st = consistent (fst st)"

section \<open>Sample inputs\<close>

text \<open>
  A host whose schema compiler reports one violation for a value that does not conform
  and none for one that does, and a small content tree: every file present and empty,
  but for one research record in English and in German.
\<close>

definition sample_host :: host where
  "sample_host =
     \<lparr>ajv_compile = (\<lambda>s j. if conforms s j then []
                              else [\<lparr>instancePath = [], err_message = ''must match the schema''\<rparr>]),
      string_to_number = (\<lambda>s. None), currentYear = 2025,
      startTime = 1000, endTime = 1250, timestamp = ''2025-06-01T00:00:00.000Z''\<rparr>"

definition sample_research :: "string \<Rightarrow> json" where
  "sample_research language =
     JObj [(''id'', JStr ''sleep-study''),
           (''title'', JStr ''Sleep duration and health''),
           (''summary'', JStr ''A cohort study of sleep duration and later health outcomes in adults.''),
           (''authors'', JStr ''A. Author''),
           (''year'', JNum 2015),
           (''journal'', JStr ''Sleep''),
           (''category'', JStr ''sleep''),
           (''evidenceLevel'', JStr ''observational''),
           (''qualityScore'', JNum 75),
           (''language'', JStr language)]"

definition empty_files :: "(string \<times> content_file) list" where
  "empty_files =
     [(''src/content/habits/en.json'', Parsed (JArr [])),
      (''src/content/habits/de.json'', Parsed (JArr [])),
      (''src/content/habits/fr.json'', Parsed (JArr [])),
      (''src/content/habits/es.json'', Parsed (JArr [])),
      (''src/content/research/en.json'', Parsed (JArr [])),
      (''src/content/research/de.json'', Parsed (JArr [])),
      (''src/content/research/fr.json'', Parsed (JArr [])),
      (''src/content/research/es.json'', Parsed (JArr [])),
      (''src/content/locales/en.json'', Parsed (JObj [])),
      (''src/content/locales/de.json'', Parsed (JObj [])),
      (''src/content/locales/fr.json'', Parsed (JObj [])),
      (''src/content/locales/es.json'', Parsed (JObj []))]"

definition sample_env :: env where
  "sample_env =
     \<lparr>files = map_of
        ([(''src/content/research/en.json'', Parsed (JArr [sample_research ''en''])),
          (''src/content/research/de.json'', Parsed (JArr [sample_research ''de'']))] @
         empty_files),
      directories = (\<lambda>dir. True)\<rparr>"

text \<open>
  A habit record that conforms to the habit schema and claims research backing without
  naming a source, and a content tree whose English habits file holds that record, the
  other files being present and empty.
\<close>

definition sample_habit :: json where
  "sample_habit =
     JObj [(''id'', JStr ''morning-walk''),
           (''title'', JStr ''Morning walk outside''),
           (''description'', JStr ''Walk outside for ten minutes after waking up.''),
           (''category'', JStr ''exercise''),
           (''difficulty'', JStr ''beginner''),
           (''timeMinutes'', JNum 10),
           (''language'', JStr ''en''),
           (''researchBacked'', JBool True)]"

definition habit_env :: env where
  "habit_env =
     \<lparr>files = map_of ((''src/content/habits/en.json'', Parsed (JArr [sample_habit])) # empty_files),
      directories = (\<lambda>dir. True)\<rparr>"

text \<open>
  Two more trees, every file present and empty but one: the English research file does
  not parse, or the English habits file holds a single object instead of an array.
\<close>

definition broken_env :: env where
  "broken_env =
     \<lparr>files = map_of ((''src/content/research/en.json'', Unparsable ''Unexpected end of JSON input'')
                        # empty_files),
      directories = (\<lambda>dir. True)\<rparr>"

definition object_env :: env where
  "object_env =
     \<lparr>files = map_of ((''src/content/habits/en.json'', Parsed sample_habit) # empty_files),
      directories = (\<lambda>dir. True)\<rparr>"

text \<open>A tree with one file only, the English research file with the sample record.\<close>

definition sparse_env :: env where
  "sparse_env =
     \<lparr>files = map_of [(''src/content/research/en.json'', Parsed (JArr [sample_research ''en'']))],
      directories = (\<lambda>dir. True)\<rparr>"







text \<open>The sample host half a year later: another calendar year, other readings of the clock.\<close>

definition later_host :: host where
  "later_host = sample_host\<lparr>currentYear := 2026, startTime := 5000, endTime := 5300,
     timestamp := ''2026-01-01T00:00:00.000Z''\<rparr>"

section \<open>Properties: the counters of the issue accumulator\<close>

text \<open>
  Every stage changes the lists of errors and warnings through \<open>addError\<close> and
  \<open>addWarning\<close> only, so each of them keeps the counters equal to the lengths.
\<close>

lemma consistent_addError: "consistent v \<Longrightarrow> consistent (addError m v)"
  by (simp add: consistent_def addError_def)

lemma consistent_addWarning: "consistent v \<Longrightarrow> consistent (addWarning m v)"
  by (simp add: consistent_def addWarning_def)

lemma andThen_pres:
  "P (snd r) \<Longrightarrow> (\<And>v. P v \<Longrightarrow> P (snd (k v))) \<Longrightarrow> P (snd (andThen r k))"
  by (cases r) (auto simp: andThen_def split: option.splits)

lemma evaluate_pres:
  "P v \<Longrightarrow> (\<And>a v. P v \<Longrightarrow> P (snd (k a v))) \<Longrightarrow> P (snd (evaluate x k v))"
  by (auto simp: evaluate_def split: sum.splits)

lemma forEach_pres:
  "(\<And>x i v. P v \<Longrightarrow> P (snd (f x i v))) \<Longrightarrow> P v \<Longrightarrow> P (snd (forEach f xs i v))"
proof (induction xs arbitrary: i v)
  case Nil
  then show ?case by simp
next
  case (Cons x xs)
  have "P (snd (f x i v))" using Cons.prems by blast
  then show ?case
    using Cons.IH [OF Cons.prems(1)] by (cases "f x i v") (auto split: option.splits)
qed

lemma foldl_pres:
  "(\<And>v x. P v \<Longrightarrow> P (f v x)) \<Longrightarrow> P v \<Longrightarrow> P (foldl f v xs)"
  by (induction xs arbitrary: v) auto

lemmas c_andThen = andThen_pres [where P = consistent]
lemmas c_evaluate = evaluate_pres [where P = consistent]
lemmas c_forEach = forEach_pres [where P = consistent]
lemmas c_foldl = foldl_pres [where P = consistent]

lemma consistent_validateHabitSpecific:
  "consistent v \<Longrightarrow> consistent (snd (validateHabitSpecific h habit filePath index v))"
  unfolding validateHabitSpecific_def
  by (auto intro!: c_andThen c_evaluate consistent_addWarning)

lemma consistent_validateResearchSpecific:
  "consistent v \<Longrightarrow> consistent (snd (validateResearchSpecific h research filePath index v))"
  unfolding validateResearchSpecific_def
  by (auto intro!: c_andThen c_evaluate consistent_addWarning split: option.splits json.splits)

lemma consistent_validateContentItem:
  "consistent v \<Longrightarrow> consistent (snd (validateContentItem h cs item ct lang filePath index v))"
  unfolding validateContentItem_def
  apply (cases "map_of cs ct")
   apply simp
  apply simp
  apply (auto intro!: c_andThen c_evaluate c_foldl consistent_addError consistent_addWarning
      consistent_validateHabitSpecific consistent_validateResearchSpecific)
  done

lemma consistent_validateContentFile:
  "consistent v \<Longrightarrow> consistent (snd (validateContentFile h cs content ct lang filePath v))"
  unfolding validateContentFile_def
  by (auto intro!: c_foldl c_forEach consistent_addError consistent_validateContentItem
      split: option.splits json.splits)

lemma consistent_files_validated:
  "consistent v \<Longrightarrow> consistent (v\<lparr>stats := (stats v)\<lparr>filesValidated := n\<rparr>\<rparr>)"
  by (simp add: consistent_def)

lemma consistent_validateContentTypeFile:
  "consistent v \<Longrightarrow> consistent (validateContentTypeFile h cs e ct lang v)"
  unfolding validateContentTypeFile_def Let_def
  apply (cases "files e (content_path ct lang)")
   apply (simp add: consistent_addWarning)
  subgoal for f
    apply (cases f)
     apply (simp add: consistent_addError)
    subgoal for content
      using consistent_validateContentFile [of v h cs content ct lang "content_path ct lang"]
      by (cases "validateContentFile h cs content ct lang (content_path ct lang) v")
         (auto split: option.splits intro: consistent_addError consistent_files_validated)
    done
  done

lemma consistent_validateContentType:
  "consistent v \<Longrightarrow> consistent (validateContentType h cs e ct v)"
  unfolding validateContentType_def
  by (intro c_foldl consistent_validateContentTypeFile)

lemma consistent_validateContentStructure:
  "consistent v \<Longrightarrow> consistent (validateContentStructure e v)"
  unfolding validateContentStructure_def
  by (intro c_foldl) (auto intro: consistent_addError consistent_addWarning)


lemma consistent_checkHabitSources:
  "consistent v \<Longrightarrow> consistent (snd (checkHabitSources ids filePath habit index v))"
  unfolding checkHabitSources_def
  by (auto intro!: c_evaluate c_forEach consistent_addWarning split: option.splits)

lemma consistent_checkHabitFile:
  "consistent v \<Longrightarrow> consistent (snd (checkHabitFile e ids language v))"
  unfolding checkHabitFile_def Let_def
  by (auto intro!: c_evaluate c_forEach consistent_checkHabitSources
      split: option.splits content_file.splits)

lemma consistent_validateCrossReferences:
  "consistent v \<Longrightarrow> consistent (snd (validateCrossReferences e v))"
  unfolding validateCrossReferences_def
  by (auto intro!: c_evaluate c_forEach consistent_checkHabitFile)

lemma consistent_loadContentSafely:
  "consistent v \<Longrightarrow> consistent (snd (loadContentSafely e ct language v))"
  unfolding loadContentSafely_def Let_def
  by (auto intro: consistent_addError split: option.splits content_file.splits)

lemma consistent_checkTranslations:
  "consistent v \<Longrightarrow> consistent (snd (checkTranslations e ct expr n ids language v))"
  unfolding checkTranslations_def
  using consistent_loadContentSafely [of v e ct language]
  by (cases "loadContentSafely e ct language v")
     (auto intro!: c_evaluate consistent_addWarning simp: Let_def)

lemma consistent_checkRecordCompleteness:
  "consistent v \<Longrightarrow> consistent (snd (checkRecordCompleteness e ct ex expr n v))"
  unfolding checkRecordCompleteness_def
  using consistent_loadContentSafely [of v e ct "''en''"]
  by (cases "loadContentSafely e ct ''en'' v")
     (auto intro!: c_evaluate c_forEach consistent_checkTranslations)

lemma consistent_checkLocaleKeys:
  "consistent v \<Longrightarrow> consistent (snd (checkLocaleKeys e keys language v))"
  unfolding checkLocaleKeys_def
  using consistent_loadContentSafely [of v e "''locales''" language]
  by (cases "loadContentSafely e ''locales'' language v")
     (auto intro!: c_evaluate consistent_addWarning simp: Let_def)

lemma consistent_checkLocaleCompleteness:
  "consistent v \<Longrightarrow> consistent (snd (checkLocaleCompleteness e v))"
  unfolding checkLocaleCompleteness_def
  using consistent_loadContentSafely [of v e "''locales''" "''en''"]
  by (cases "loadContentSafely e ''locales'' ''en'' v")
     (auto intro!: c_evaluate c_forEach consistent_checkLocaleKeys)

lemma consistent_validateTranslationCompleteness:
  "consistent v \<Longrightarrow> consistent (snd (validateTranslationCompleteness e v))"
  unfolding validateTranslationCompleteness_def
  by (intro c_andThen consistent_checkRecordCompleteness consistent_checkLocaleCompleteness)

lemmas q_andThen = andThen_pres [where P = counted]
lemmas q_evaluate = evaluate_pres [where P = counted]
lemmas q_forEach = forEach_pres [where P = counted]

lemma counted_pair: "counted (v, t, n) = consistent v"
  by (simp add: counted_def)

lemma counted_qualityItem:
  "counted st \<Longrightarrow> counted (snd (qualityItem label var field n item index st))"
  unfolding qualityItem_def
  by (auto intro!: q_evaluate q_andThen consistent_addWarning consistent_addError
      simp: Let_def counted_pair split: prod.splits)

lemma counted_qualityFile:
  "counted st \<Longrightarrow> counted (snd (qualityFile e ct expr label var field n language st))"
proof (cases st)
  case (fields v t k)
  assume "counted st"
  then have "consistent v" by (simp add: counted_def fields)
  then have "consistent (snd (loadContentSafely e ct language v))"
    by (rule consistent_loadContentSafely)
  then have "counted (snd (loadContentSafely e ct language v), t, k)"
    by (simp add: counted_def)
  then show ?thesis
    unfolding qualityFile_def fields
    by (cases "loadContentSafely e ct language v")
       (auto intro!: q_evaluate q_forEach counted_qualityItem)
qed

lemma counted_qualityLanguage:
  "counted st \<Longrightarrow> counted (snd (qualityLanguage e language i st))"
  unfolding qualityLanguage_def
  by (intro q_andThen counted_qualityFile)

lemma consistent_validateContentQuality:
  "consistent v \<Longrightarrow> consistent (snd (validateContentQuality e v))"
proof -
  assume v: "consistent v"
  have "counted (snd (forEach (qualityLanguage e) supportedLanguages 0 (v, 0, 0)))"
    by (rule q_forEach) (auto intro: counted_qualityLanguage simp: counted_pair v)
  then show ?thesis
    unfolding validateContentQuality_def
    by (auto simp: counted_def split: prod.splits option.splits intro: consistent_addWarning)
qed

lemma consistent_initial: "consistent initial"
  by (simp add: consistent_def initial_def)

lemma consistent_validateStages: "consistent (snd (validateStages h e))"
  unfolding validateStages_def
  by (intro c_andThen consistent_validateCrossReferences
      consistent_validateTranslationCompleteness consistent_validateContentQuality)
     (auto intro!: c_foldl consistent_validateContentType consistent_validateContentStructure
        consistent_initial)


lemma completed_run_reports:
  "fst (validateStages h e) = None \<Longrightarrow> \<exists>r code. validateAll h e = Reported r code"
  by (cases "validateStages h e") (auto simp: validateAll_def generateReport_def)

lemma report_of_run:
  "validateAll h e = Reported r code \<Longrightarrow>
     report_errors r = errors (snd (validateStages h e)) \<and>
     report_warnings r = warnings (snd (validateStages h e)) \<and>
     totalErrors (statistics r) = totalErrors (stats (snd (validateStages h e))) \<and>
     totalWarnings (statistics r) = totalWarnings (stats (snd (validateStages h e))) \<and>
     passed r = (errors (snd (validateStages h e)) = []) \<and>
     code = (if errors (snd (validateStages h e)) = [] then 0 else 1)"
  by (cases "validateStages h e")
     (auto simp: validateAll_def generateReport_def split: option.splits)

lemma sample_run_completes: "fst (validateStages sample_host sample_env) = None"
  by code_simp

lemma habit_run_completes: "fst (validateStages sample_host habit_env) = None"
  by code_simp

lemma habit_run_errors: "errors (snd (validateStages sample_host habit_env)) \<noteq> []"
  by code_simp

lemma sample_run_errors: "errors (snd (validateStages sample_host sample_env)) = []"
  by code_simp

text \<open>
  Claim C10. The counters of the issue accumulator agree with its lists: at the start,
  after every \<open>addError\<close> and every \<open>addWarning\<close>, in whatever state the stages of a
  run leave the validator, and therefore in the report of every run that produces one,
  \<open>totalErrors\<close> is the length of the list of errors and \<open>totalWarnings\<close> the length
  of the list of warnings.
\<close>

theorem counters_agree_with_issue_lists:
  "consistent initial \<and>
   (consistent v \<longrightarrow> consistent (addError msg v) \<and> consistent (addWarning msg v)) \<and>
   consistent (snd (validateStages h e)) \<and>
   (validateAll h e = Reported r code \<longrightarrow>
      totalErrors (statistics r) = length (report_errors r) \<and>
      totalWarnings (statistics r) = length (report_warnings r))"
proof -
  have run: "consistent (snd (validateStages h e))"
    by (rule consistent_validateStages)
  have report: "validateAll h e = Reported r code \<longrightarrow>
      totalErrors (statistics r) = length (report_errors r) \<and>
      totalWarnings (statistics r) = length (report_warnings r)"
    using run report_of_run [of h e r code] by (simp add: consistent_def)
  show ?thesis
    using run report by (simp add: consistent_initial consistent_addError consistent_addWarning)
qed

theorem counters_agree_with_issue_lists_witness:
  "consistent initial \<and> consistent (addError ''first'' initial) \<and>
   consistent (addWarning ''first'' initial) \<and>
   (\<exists>r code. validateAll sample_host sample_env = Reported r code \<and>
      totalErrors (statistics r) = length (report_errors r) \<and>
      totalWarnings (statistics r) = length (report_warnings r))"
proof -
  obtain r code where run: "validateAll sample_host sample_env = Reported r code"
    using completed_run_reports [OF sample_run_completes] by blast
  show ?thesis
    using counters_agree_with_issue_lists [of initial "''first''" sample_host sample_env r code] run
    by blast
qed



section \<open>Properties: the report\<close>

text \<open>
  Claim C8. In the report of a run that completes, \<open>passed\<close> holds exactly when the
  count of errors is zero, which is when the list of errors is empty, whatever the
  warnings; the exit code is 0 exactly when the count of errors is zero and is not 0
  otherwise. Adding a warning changes neither the flag nor the exit code.
\<close>

theorem report_passes_iff_no_errors:
  "(validateAll h e = Reported r code \<longrightarrow>
     (passed r \<longleftrightarrow> totalErrors (statistics r) = 0) \<and>
     (passed r \<longleftrightarrow> report_errors r = []) \<and>
     (code = 0 \<longleftrightarrow> totalErrors (statistics r) = 0) \<and>
     (code \<noteq> 0 \<longleftrightarrow> 0 < totalErrors (statistics r)) \<and>
     exit_code (validateAll h e) = code) \<and>
   passed (fst (generateReport now (addWarning w v))) = passed (fst (generateReport now v)) \<and>
   snd (generateReport now (addWarning w v)) = snd (generateReport now v)"
proof -
  have "consistent (snd (validateStages h e))"
    by (rule consistent_validateStages)
  then have run: "validateAll h e = Reported r code \<longrightarrow>
     (passed r \<longleftrightarrow> totalErrors (statistics r) = 0) \<and>
     (passed r \<longleftrightarrow> report_errors r = []) \<and>
     (code = 0 \<longleftrightarrow> totalErrors (statistics r) = 0) \<and>
     (code \<noteq> 0 \<longleftrightarrow> 0 < totalErrors (statistics r)) \<and>
     exit_code (validateAll h e) = code"
    using report_of_run [of h e r code] by (auto simp: consistent_def)
  have flag: "passed (fst (generateReport now (addWarning w v))) = passed (fst (generateReport now v))"
    by (simp add: generateReport_def addWarning_def)
  have code: "snd (generateReport now (addWarning w v)) = snd (generateReport now v)"
    by (simp add: generateReport_def addWarning_def)
  show ?thesis
    using run flag code by blast
qed

theorem report_passes_iff_no_errors_witness:
  "(\<exists>r code. validateAll sample_host sample_env = Reported r code \<and>
      passed r \<and> totalErrors (statistics r) = 0 \<and> code = 0) \<and>
   (\<exists>r code. validateAll sample_host habit_env = Reported r code \<and>
      \<not> passed r \<and> 0 < totalErrors (statistics r) \<and> code \<noteq> 0)"
proof -
  obtain r code where run: "validateAll sample_host sample_env = Reported r code"
    using completed_run_reports [OF sample_run_completes] by blast
  have none: "report_errors r = []"
    using report_of_run [OF run] sample_run_errors by simp
  obtain r' code' where run': "validateAll sample_host habit_env = Reported r' code'"
    using completed_run_reports [OF habit_run_completes] by blast
  have some: "report_errors r' \<noteq> []"
    using report_of_run [OF run'] habit_run_errors by simp
  show ?thesis
    using report_passes_iff_no_errors [of sample_host sample_env r code]
      report_passes_iff_no_errors [of sample_host habit_env r' code'] run run' none some
    by blast
qed


section \<open>Properties: what the run does with the habits files\<close>

text \<open>
  The schemas are compiled under the names \<open>habit\<close>, \<open>research\<close> and \<open>locales\<close>, and
  the records of a habits file are validated under the content type \<open>habits\<close>: no
  schema has that name, so the validation of the first record throws, and the
  \<open>catch\<close> of \<open>validateContentType\<close> reports the file as invalid JSON.
\<close>

lemma no_habits_schema: "map_of (loadSchemas h) ''habits'' = None"
  by (simp add: loadSchemas_def schemas_def)

lemma habits_item_throws:
  "validateContentItem h (loadSchemas h) item ''habits'' language filePath index v =
     (Some (TypeError ''validate is not a function''), v)"
  by (simp add: validateContentItem_def no_habits_schema)

lemma habits_file_throws:
  "validateContentFile h (loadSchemas h) (JArr (item # items)) ''habits'' language filePath v =
     (Some (TypeError ''validate is not a function''), v)"
  by (simp add: validateContentFile_def habits_item_throws)

text \<open>
  Claim C1, at a habits file whose only record conforms to the habit schema: the
  validation of the file adds an error for it, whatever the host's schema compiler.
\<close>

theorem conforming_habit_reported_invalid:
  "conforms habit_schema sample_habit \<and>
   validateContentTypeFile h (loadSchemas h) habit_env ''habits'' ''en'' v =
     addError ''Invalid JSON in src/content/habits/en.json: validate is not a function'' v"
proof -
  have "conforms habit_schema sample_habit"
    by code_simp
  moreover have "files habit_env (content_path ''habits'' ''en'') = Some (Parsed (JArr [sample_habit]))"
    by (simp add: habit_env_def content_path_def)
  then have "validateContentTypeFile h (loadSchemas h) habit_env ''habits'' ''en'' v =
     addError ''Invalid JSON in src/content/habits/en.json: validate is not a function'' v"
    by (simp add: validateContentTypeFile_def habits_file_throws content_path_def)
  ultimately show ?thesis by simp
qed

text \<open>
  Claim C4, at the same record, which is marked as research-backed and has no sources:
  its validation throws before any habit rule is looked at, the file's validation adds
  no warning, and no warning of the whole run mentions research backing; the rule
  itself, \<open>validateHabitSpecific\<close>, would have warned.
\<close>

theorem research_backing_never_checked:
  "get_prop (Some sample_habit) ''researchBacked'' = Inr (Some (JBool True)) \<and>
   get_prop (Some sample_habit) ''sources'' = Inr None \<and>
   validateContentItem h (loadSchemas h) sample_habit ''habits'' ''en'' (content_path ''habits'' ''en'') 0 v =
     (Some (TypeError ''validate is not a function''), v) \<and>
   warnings (validateContentTypeFile h (loadSchemas h) habit_env ''habits'' ''en'' v) = warnings v \<and>
   validateHabitSpecific h sample_habit ''f'' 0 v =
     (None, addWarning ''f[0]: Habit marked as research-backed but has no sources'' v) \<and>
   \<not> list_ex (\<lambda>w. str_includes w ''research-backed'')
       (warnings (snd (validateStages sample_host habit_env)))"
proof -
  have run: "\<not> list_ex (\<lambda>w. str_includes w ''research-backed'')
       (warnings (snd (validateStages sample_host habit_env)))"
    by code_simp
  have "files habit_env (content_path ''habits'' ''en'') = Some (Parsed (JArr [sample_habit]))"
    by (simp add: habit_env_def content_path_def)
  then have "warnings (validateContentTypeFile h (loadSchemas h) habit_env ''habits'' ''en'' v) = warnings v"
    by (simp add: validateContentTypeFile_def habits_file_throws content_path_def addError_def)
  moreover have "validateHabitSpecific h sample_habit ''f'' 0 v =
     (None, addWarning ''f[0]: Habit marked as research-backed but has no sources'' v)"
    by (simp add: validateHabitSpecific_def sample_habit_def evaluate_def andThen_def js_less_def
        item_location_def show_nat.simps digit_char_def)
  ultimately show ?thesis
    using run by (simp add: habits_item_throws sample_habit_def)
qed


theorem research_backing_never_checked_witness:
  "validateContentItem sample_host (loadSchemas sample_host) sample_habit ''habits'' ''en''
      (content_path ''habits'' ''en'') 0 initial =
     (Some (TypeError ''validate is not a function''), initial) \<and>
   warnings (validateContentTypeFile sample_host (loadSchemas sample_host) habit_env
      ''habits'' ''en'' initial) = warnings initial \<and>
   validateHabitSpecific sample_host sample_habit ''f'' 0 initial =
     (None, addWarning ''f[0]: Habit marked as research-backed but has no sources'' initial)"
  using research_backing_never_checked [of sample_host initial] by simp

section \<open>Properties: files the cross-reference stage cannot walk\<close>

text \<open>
  A run whose cross-reference stage throws ends in the \<open>catch\<close> of \<open>validateAll\<close>:
  no later stage runs and no report is generated.
\<close>

lemma stages_fail:
  assumes "\<And>v. fst (validateCrossReferences e v) = Some err"
  shows "validateAll h e = Failed (message err)"
proof -
  obtain v0 where v0: "foldl (\<lambda>v contentType. validateContentType h (loadSchemas h) e contentType v)
                (validateContentStructure e initial) contentTypes = v0" by simp
  obtain v1 where "validateCrossReferences e v0 = (Some err, v1)"
    using assms [of v0] by (cases "validateCrossReferences e v0") auto
  then show ?thesis
    by (simp add: validateAll_def validateStages_def andThen_def v0)
qed

lemma broken_cross: "fst (validateCrossReferences broken_env v) = Some (SyntaxError ''Unexpected end of JSON input'')"
  by (simp add: validateCrossReferences_def supportedLanguages_def broken_env_def content_path_def evaluate_def)

text \<open>
  Claim C2, at a tree whose English research file does not parse: the first stage adds
  the error that names the file and the parse failure, and then the cross-reference
  stage parses the file again, outside any \<open>try\<close>, so that the run ends there with
  exit code 1 and without a report.
\<close>

theorem unparsable_research_aborts_run:
  "validateContentTypeFile h (loadSchemas h) broken_env ''research'' ''en'' v =
     addError ''Invalid JSON in src/content/research/en.json: Unexpected end of JSON input'' v \<and>
   validateAll h broken_env = Failed ''Unexpected end of JSON input'' \<and>
   exit_code (validateAll h broken_env) = 1"
proof -
  have "validateAll h broken_env = Failed ''Unexpected end of JSON input''"
    using stages_fail [of broken_env "SyntaxError ''Unexpected end of JSON input''" h] broken_cross
    by simp
  then show ?thesis
    by (simp add: validateContentTypeFile_def broken_env_def content_path_def)
qed

lemma object_cross: "fst (validateCrossReferences object_env v) = Some (TypeError ''habits.forEach is not a function'')"
  by (simp add: validateCrossReferences_def supportedLanguages_def object_env_def content_path_def
      evaluate_def empty_files_def checkHabitFile_def sample_habit_def)

text \<open>
  Claim C5, at a tree whose English habits file is a single object: the validation of
  the file adds the one error that the content must be an array, and then the
  cross-reference stage calls \<open>forEach\<close> on the object, so that the run ends there with
  exit code 1 and without a report.
\<close>

theorem single_object_aborts_run:
  "validateContentFile h cs sample_habit ''habits'' ''en'' (content_path ''habits'' ''en'') v =
     (None, addError ''src/content/habits/en.json: Content must be an array'' v) \<and>
   validateAll h object_env = Failed ''habits.forEach is not a function'' \<and>
   exit_code (validateAll h object_env) = 1"
proof -
  have "validateAll h object_env = Failed ''habits.forEach is not a function''"
    using stages_fail [of object_env "TypeError ''habits.forEach is not a function''" h] object_cross
    by simp
  then show ?thesis
    by (simp add: validateContentFile_def sample_habit_def content_path_def)
qed



section \<open>Properties: two runs over the same files\<close>

text \<open>
  The stages read the host's schema compiler, its \<open>StringToNumber\<close> and the current
  year (the recency rule of the research records and the upper bound of \<open>year\<close> in
  the research schema), and no other reading of the clock.
\<close>

lemma habit_rules_same_host:
  assumes "string_to_number h' = string_to_number h"
  shows "validateHabitSpecific h' = validateHabitSpecific h"
  by (intro ext, unfold validateHabitSpecific_def assms, rule refl)

lemma research_rules_same_host:
  assumes "string_to_number h' = string_to_number h" "currentYear h' = currentYear h"
  shows "validateResearchSpecific h' = validateResearchSpecific h"
  by (intro ext, unfold validateResearchSpecific_def assms, rule refl)

lemma schemas_same_host:
  assumes "ajv_compile h' = ajv_compile h" "currentYear h' = currentYear h"
  shows "loadSchemas h' = loadSchemas h"
  unfolding loadSchemas_def assms by (rule refl)

lemma item_same_host:
  assumes "string_to_number h' = string_to_number h" "currentYear h' = currentYear h"
  shows "validateContentItem h' = validateContentItem h"
  by (intro ext, unfold validateContentItem_def habit_rules_same_host [OF assms(1)]
      research_rules_same_host [OF assms], rule refl)

lemma file_same_host:
  assumes "string_to_number h' = string_to_number h" "currentYear h' = currentYear h"
  shows "validateContentFile h' = validateContentFile h"
  by (intro ext, unfold validateContentFile_def item_same_host [OF assms], rule refl)

lemma type_same_host:
  assumes "string_to_number h' = string_to_number h" "currentYear h' = currentYear h"
  shows "validateContentType h' = validateContentType h"
  by (intro ext, unfold validateContentType_def validateContentTypeFile_def
      file_same_host [OF assms], rule refl)

lemma stages_same_host:
  assumes "ajv_compile h' = ajv_compile h" "string_to_number h' = string_to_number h"
    "currentYear h' = currentYear h"
  shows "validateStages h' e = validateStages h e"
  unfolding validateStages_def type_same_host [OF assms(2,3)] schemas_same_host [OF assms(1,3)]
  by (rule refl)

lemma without_times_run:
  "without_times (validateAll h e) =
     (case validateStages h e of
        (Some error, v) \<Rightarrow> Failed (message error)
      | (None, v) \<Rightarrow>
          Reported \<lparr>report_timestamp = [], statistics = (stats v)\<lparr>validationTime := 0\<rparr>,
            report_errors = errors v, report_warnings = warnings v,
            passed = (length (errors v) = 0)\<rparr> (if 0 < length (errors v) then 1 else 0))"
  by (cases "validateStages h e")
     (auto simp: validateAll_def generateReport_def split: option.splits)

lemma later_run_warns:
  "list_ex (\<lambda>w. str_includes w ''over 10 years old'')
     (warnings (snd (validateStages later_host sample_env)))"
  by code_simp

lemma sample_run_does_not_warn:
  "\<not> list_ex (\<lambda>w. str_includes w ''over 10 years old'')
     (warnings (snd (validateStages sample_host sample_env)))"
  by code_simp

lemma report_warnings_without_times:
  "without_times (validateAll h e) = without_times (validateAll h' e) \<Longrightarrow>
   fst (validateStages h e) = None \<Longrightarrow>
   warnings (snd (validateStages h' e)) = warnings (snd (validateStages h e))"
  by (cases "validateStages h e"; cases "validateStages h' e")
     (auto simp: without_times_run split: option.splits)

text \<open>
  Claim C9, as amended: two runs over the same files by the same host, started in the
  same calendar year, end alike, both without a report or both with reports that agree
  in everything but the timestamp and the elapsed time.
\<close>

theorem reports_agree_within_a_year:
  assumes "ajv_compile h' = ajv_compile h" and "string_to_number h' = string_to_number h"
    and "currentYear h' = currentYear h"
  shows "without_times (validateAll h' e) = without_times (validateAll h e)"
proof -
  have "validateStages h' e = validateStages h e"
    using assms by (rule stages_same_host)
  then show ?thesis
    by (simp only: without_times_run)
qed

theorem reports_agree_within_a_year_witness:
  "without_times (validateAll (sample_host\<lparr>startTime := 5000, endTime := 5300,
       timestamp := ''2025-12-31T23:59:59.000Z''\<rparr>) sample_env) =
   without_times (validateAll sample_host sample_env)"
  using reports_agree_within_a_year [of "sample_host\<lparr>startTime := 5000, endTime := 5300,
       timestamp := ''2025-12-31T23:59:59.000Z''\<rparr>" sample_host sample_env]
  by simp

text \<open>
  Claim C9 as stated fails across a change of year: the research record of 2015 is not
  older than ten years in 2025 and is in 2026, so the later report has a warning more.
\<close>

theorem reports_differ_across_years:
  "ajv_compile later_host = ajv_compile sample_host \<and>
   string_to_number later_host = string_to_number sample_host \<and>
   without_times (validateAll later_host sample_env) \<noteq>
   without_times (validateAll sample_host sample_env)"
proof -
  have "without_times (validateAll later_host sample_env) \<noteq>
      without_times (validateAll sample_host sample_env)"
  proof
    assume "without_times (validateAll later_host sample_env) =
      without_times (validateAll sample_host sample_env)"
    then have "warnings (snd (validateStages later_host sample_env)) =
        warnings (snd (validateStages sample_host sample_env))"
      using report_warnings_without_times [of sample_host sample_env later_host]
        sample_run_completes by simp
    then show False
      using later_run_warns sample_run_does_not_warn by simp
  qed
  then show ?thesis
    by (simp add: later_host_def)
qed



section \<open>Properties: a file that is absent\<close>

text \<open>
  The paths of the twelve content files are distinct, so that putting the empty content
  in the place of an absent file changes what is read at that path only; and what the
  later stages read there is the empty content in either case.
\<close>

lemma path_inj:
  assumes "ct \<in> set contentTypes" "l \<in> set supportedLanguages"
    "ct' \<in> set contentTypes" "l' \<in> set supportedLanguages"
    "content_path ct l = content_path ct' l'"
  shows "ct = ct' \<and> l = l'"
proof -
  have ct: "ct = ''habits'' \<or> ct = ''research'' \<or> ct = ''locales''"
    using assms(1) by (simp add: contentTypes_def)
  have ct': "ct' = ''habits'' \<or> ct' = ''research'' \<or> ct' = ''locales''"
    using assms(3) by (simp add: contentTypes_def)
  have eq: "ct @ ''/'' @ l = ct' @ ''/'' @ l'"
    using assms(5) by (simp add: content_path_def)
  have "ct = ct'"
    using ct ct' eq by (elim disjE) simp_all
  then show ?thesis
    using eq by simp
qed

lemma files_put_file:
  "files (put_file e p c) q = (if q = p then Some c else files e q)"
  by (simp add: put_file_def)

lemma directories_put_file: "directories (put_file e p c) = directories e"
  by (simp add: put_file_def)

lemma forEach_cong_list:
  "(\<And>x i v. x \<in> set xs \<Longrightarrow> f x i v = g x i v) \<Longrightarrow> forEach f xs i v = forEach g xs i v"
  by (induction xs arbitrary: i v) (auto split: prod.splits option.splits)

lemma forEach_cong_fun:
  "(\<And>x i v. x \<in> set xs \<Longrightarrow> f x i v = g x i v) \<Longrightarrow> forEach f xs i = forEach g xs i"
  by (rule ext) (rule forEach_cong_list)

lemma types_known:
  "''habits'' \<in> set contentTypes" "''research'' \<in> set contentTypes"
  "''locales'' \<in> set contentTypes"
  by (simp_all add: contentTypes_def)

lemma languages_known:
  "''en'' \<in> set supportedLanguages" "set otherLanguages \<subseteq> set supportedLanguages"
  by (auto simp: supportedLanguages_def otherLanguages_def)

lemma empty_of_known_path:
  assumes "ct \<in> set contentTypes" "l \<in> set supportedLanguages"
    "ct' \<in> set contentTypes" "l' \<in> set supportedLanguages"
    "content_path ct' l' = content_path ct l"
  shows "emptyContent ct' = emptyContent ct"
  using path_inj [OF assms(3,4,1,2) assms(5)] by simp

lemma load_absent_or_empty:
  assumes "ct \<in> set contentTypes" "l \<in> set supportedLanguages"
    "files e (content_path ct l) = None"
    "ct' \<in> set contentTypes" "l' \<in> set supportedLanguages"
  shows "loadContentSafely (put_file e (content_path ct l) (Parsed (emptyContent ct))) ct' l' v =
         loadContentSafely e ct' l' v"
proof (cases "content_path ct' l' = content_path ct l")
  case True
  then show ?thesis
    using assms(3) empty_of_known_path [OF assms(1,2,4,5) True]
    by (simp add: loadContentSafely_def files_put_file)
next
  case False
  then show ?thesis
    by (simp add: loadContentSafely_def files_put_file)
qed

lemma research_ids_absent_or_empty:
  assumes "ct \<in> set contentTypes" "l \<in> set supportedLanguages"
    "files e (content_path ct l) = None"
  shows "set ls \<subseteq> set supportedLanguages \<Longrightarrow>
    loadResearchIds (put_file e (content_path ct l) (Parsed (emptyContent ct))) ls ids =
    loadResearchIds e ls ids"
proof (induction ls arbitrary: ids)
  case Nil
  then show ?case by simp
next
  case (Cons x ls)
  then have x: "x \<in> set supportedLanguages" and ls: "set ls \<subseteq> set supportedLanguages"
    by auto
  show ?case
  proof (cases "content_path ''research'' x = content_path ct l")
    case True
    then have "ct = ''research''"
      using path_inj [OF types_known(2) x assms(1,2) True] by simp
    then have "emptyContent ct = JArr []"
      by (simp add: emptyContent_def)
    then show ?thesis
      using True assms(3) Cons.IH [OF ls] by (simp add: files_put_file)
  next
    case False
    then show ?thesis
      using Cons.IH [OF ls]
      by (simp add: files_put_file split: option.splits content_file.splits sum.splits)
  qed
qed

lemma habit_file_absent_or_empty:
  assumes "ct \<in> set contentTypes" "l \<in> set supportedLanguages"
    "files e (content_path ct l) = None" "x \<in> set supportedLanguages"
  shows "checkHabitFile (put_file e (content_path ct l) (Parsed (emptyContent ct))) ids x v =
    checkHabitFile e ids x v"
proof (cases "content_path ''habits'' x = content_path ct l")
  case True
  then have "ct = ''habits''"
    using path_inj [OF types_known(1) assms(4) assms(1,2) True] by simp
  then have "emptyContent ct = JArr []"
    by (simp add: emptyContent_def)
  then show ?thesis
    using True assms(3) by (simp add: checkHabitFile_def files_put_file evaluate_def)
next
  case False
  then show ?thesis
    by (simp add: checkHabitFile_def files_put_file)
qed

lemma cross_absent_or_empty:
  assumes "ct \<in> set contentTypes" "l \<in> set supportedLanguages"
    "files e (content_path ct l) = None"
  shows "validateCrossReferences (put_file e (content_path ct l) (Parsed (emptyContent ct))) v =
    validateCrossReferences e v"
proof -
  have "\<And>ids. forEach (\<lambda>language i.
          checkHabitFile (put_file e (content_path ct l) (Parsed (emptyContent ct))) ids language)
          supportedLanguages 0 =
        forEach (\<lambda>language i. checkHabitFile e ids language) supportedLanguages 0"
    by (rule forEach_cong_fun) (rule habit_file_absent_or_empty [OF assms])
  then show ?thesis
    by (simp add: validateCrossReferences_def research_ids_absent_or_empty [OF assms])
qed

lemma completeness_absent_or_empty:
  assumes "ct \<in> set contentTypes" "l \<in> set supportedLanguages"
    "files e (content_path ct l) = None"
  shows "validateTranslationCompleteness (put_file e (content_path ct l) (Parsed (emptyContent ct))) v =
    validateTranslationCompleteness e v"
proof -
  let ?e = "put_file e (content_path ct l) (Parsed (emptyContent ct))"
  have load: "\<And>ct' l' v. ct' \<in> set contentTypes \<Longrightarrow> l' \<in> set supportedLanguages \<Longrightarrow>
      loadContentSafely ?e ct' l' v = loadContentSafely e ct' l' v"
    by (rule load_absent_or_empty [OF assms])
  have other: "\<And>x. x \<in> set otherLanguages \<Longrightarrow> x \<in> set supportedLanguages"
    using languages_known(2) by blast
  have records: "\<And>ct' a b n v. ct' \<in> set contentTypes \<Longrightarrow>
      checkRecordCompleteness ?e ct' a b n v = checkRecordCompleteness e ct' a b n v"
  proof -
    fix ct' a b n v
    assume ct': "ct' \<in> set contentTypes"
    have "\<And>ids. forEach (\<lambda>language i. checkTranslations ?e ct' b n ids language) otherLanguages 0 =
        forEach (\<lambda>language i. checkTranslations e ct' b n ids language) otherLanguages 0"
      by (rule forEach_cong_fun) (simp add: checkTranslations_def load [OF ct'] other)
    then show "checkRecordCompleteness ?e ct' a b n v = checkRecordCompleteness e ct' a b n v"
      by (simp add: checkRecordCompleteness_def load [OF ct' languages_known(1)])
  qed
  have "\<And>keys. forEach (\<lambda>language i. checkLocaleKeys ?e keys language) otherLanguages 0 =
        forEach (\<lambda>language i. checkLocaleKeys e keys language) otherLanguages 0"
    by (rule forEach_cong_fun) (simp add: checkLocaleKeys_def load [OF types_known(3)] other)
  then have locales: "checkLocaleCompleteness ?e = checkLocaleCompleteness e"
    by (intro ext) (simp add: checkLocaleCompleteness_def load [OF types_known(3) languages_known(1)])
  show ?thesis
    by (simp add: validateTranslationCompleteness_def records types_known locales)
qed

lemma quality_absent_or_empty:
  assumes "ct \<in> set contentTypes" "l \<in> set supportedLanguages"
    "files e (content_path ct l) = None"
  shows "validateContentQuality (put_file e (content_path ct l) (Parsed (emptyContent ct))) v =
    validateContentQuality e v"
proof -
  let ?e = "put_file e (content_path ct l) (Parsed (emptyContent ct))"
  have load: "\<And>ct' l' v. ct' \<in> set contentTypes \<Longrightarrow> l' \<in> set supportedLanguages \<Longrightarrow>
      loadContentSafely ?e ct' l' v = loadContentSafely e ct' l' v"
    by (rule load_absent_or_empty [OF assms])
  have qfile: "\<And>ct' a b c d n x st. ct' \<in> set contentTypes \<Longrightarrow> x \<in> set supportedLanguages \<Longrightarrow>
      qualityFile ?e ct' a b c d n x st = qualityFile e ct' a b c d n x st"
    by (simp add: qualityFile_def load)
  have "\<And>x. x \<in> set supportedLanguages \<Longrightarrow>
      qualityFile ?e ''research'' ''research'' ''Research'' ''article'' ''summary'' 30 x =
      qualityFile e ''research'' ''research'' ''Research'' ''article'' ''summary'' 30 x"
    by (rule ext) (simp add: qfile types_known)
  then have "\<And>st. forEach (qualityLanguage ?e) supportedLanguages 0 st =
      forEach (qualityLanguage e) supportedLanguages 0 st"
    by (intro forEach_cong_list) (simp add: qualityLanguage_def qfile types_known)
  then show ?thesis
    by (simp add: validateContentQuality_def)
qed


lemma foldl_errors_unchanged:
  "(\<And>v x. errors (f v x) = errors v) \<Longrightarrow> errors (foldl f v xs) = errors v"
  by (induction xs arbitrary: v) auto

lemma foldl_warnings_grow:
  "(\<And>v x. set (warnings v) \<subseteq> set (warnings (f v x))) \<Longrightarrow>
   set (warnings v) \<subseteq> set (warnings (foldl f v xs))"
proof (induction xs arbitrary: v)
  case Nil
  then show ?case by simp
next
  case (Cons x xs)
  have "set (warnings v) \<subseteq> set (warnings (f v x))" by (rule Cons.prems)
  moreover have "set (warnings (f v x)) \<subseteq> set (warnings (foldl f (f v x) xs))"
    by (rule Cons.IH) (rule Cons.prems)
  ultimately show ?case by auto
qed

lemma foldl_warning_added:
  assumes "x \<in> set xs"
    and grow: "\<And>v y. set (warnings v) \<subseteq> set (warnings (f v y))"
    and adds: "\<And>v. m \<in> set (warnings (f v x))"
  shows "m \<in> set (warnings (foldl f v xs))"
  using assms(1)
proof (induction xs arbitrary: v)
  case Nil
  then show ?case by simp
next
  case (Cons y ys)
  show ?case
  proof (cases "x = y")
    case True
    then have "m \<in> set (warnings (f v y))" using adds by simp
    then show ?thesis
      using foldl_warnings_grow [of f "f v y" ys, OF grow] by auto
  next
    case False
    then have "x \<in> set ys" using Cons.prems by simp
    then show ?thesis using Cons.IH by simp
  qed
qed

lemma structure_errors:
  "directories e' = directories e \<Longrightarrow>
   errors (validateContentStructure e' v) = errors (validateContentStructure e v)"
  unfolding validateContentStructure_def
  by (simp add: foldl_errors_unchanged addWarning_def)

lemma structure_warns:
  assumes "ct \<in> set contentTypes" "l \<in> set supportedLanguages"
    "files e (content_path ct l) = None"
  shows "(''Missing content file: '' @ content_path ct l) \<in> set (warnings (validateContentStructure e v))"
  unfolding validateContentStructure_def
proof (rule foldl_warning_added [OF assms(1)])
  fix v y
  show "set (warnings v) \<subseteq> set (warnings (foldl (\<lambda>v language.
             if files e (content_path y language) = None
             then addWarning (''Missing content file: '' @ content_path y language) v
             else v) v supportedLanguages))"
    by (rule foldl_warnings_grow) (auto simp: addWarning_def)
next
  fix v
  show "(''Missing content file: '' @ content_path ct l) \<in> set (warnings (foldl (\<lambda>v language.
             if files e (content_path ct language) = None
             then addWarning (''Missing content file: '' @ content_path ct language) v
             else v) v supportedLanguages))"
    by (rule foldl_warning_added [OF assms(2)]) (auto simp: addWarning_def assms(3))
qed

text \<open>
  Claim C7. For a content type and a language whose file is absent: the first stage
  adds its warning for the file and nothing else, the check of the structure warns
  about the file and has the errors it would have with the file present, loading the
  file yields the empty value (an empty array for habits and research, an empty mapping
  for locales) and adds no error, and each later stage does exactly what it does when
  the file is present and holds the empty value.
\<close>

theorem absent_file_warns_and_counts_as_empty:
  assumes "contentType \<in> set contentTypes" and "language \<in> set supportedLanguages"
    and "files e (content_path contentType language) = None"
  shows "validateContentTypeFile h cs e contentType language v =
       addWarning (''Missing '' @ contentType @ '' file for '' @ language @ '': '' @
         content_path contentType language) v \<and>
     (''Missing content file: '' @ content_path contentType language)
       \<in> set (warnings (validateContentStructure e v)) \<and>
     errors (validateContentStructure e v) =
       errors (validateContentStructure
         (put_file e (content_path contentType language) (Parsed (emptyContent contentType))) v) \<and>
     loadContentSafely e contentType language v = (emptyContent contentType, v) \<and>
     emptyContent contentType = (if contentType = ''locales'' then JObj [] else JArr []) \<and>
     validateCrossReferences e v =
       validateCrossReferences
         (put_file e (content_path contentType language) (Parsed (emptyContent contentType))) v \<and>
     validateTranslationCompleteness e v =
       validateTranslationCompleteness
         (put_file e (content_path contentType language) (Parsed (emptyContent contentType))) v \<and>
     validateContentQuality e v =
       validateContentQuality
         (put_file e (content_path contentType language) (Parsed (emptyContent contentType))) v"
proof -
  have first: "validateContentTypeFile h cs e contentType language v =
       addWarning (''Missing '' @ contentType @ '' file for '' @ language @ '': '' @
         content_path contentType language) v"
    using assms(3) by (simp add: validateContentTypeFile_def)
  have load: "loadContentSafely e contentType language v = (emptyContent contentType, v)"
    using assms(3) by (simp add: loadContentSafely_def)
  have dirs: "errors (validateContentStructure e v) =
       errors (validateContentStructure
         (put_file e (content_path contentType language) (Parsed (emptyContent contentType))) v)"
    by (rule structure_errors [symmetric]) (rule directories_put_file)
  show ?thesis
    using first load dirs structure_warns [OF assms] cross_absent_or_empty [OF assms]
      completeness_absent_or_empty [OF assms] quality_absent_or_empty [OF assms]
    by (simp add: emptyContent_def)
qed

theorem absent_file_warns_and_counts_as_empty_witness:
  "validateContentTypeFile sample_host (loadSchemas sample_host) sparse_env ''locales'' ''fr'' initial =
       addWarning (''Missing '' @ ''locales'' @ '' file for '' @ ''fr'' @ '': '' @
         content_path ''locales'' ''fr'') initial \<and>
     (''Missing content file: '' @ content_path ''locales'' ''fr'')
       \<in> set (warnings (validateContentStructure sparse_env initial)) \<and>
     errors (validateContentStructure sparse_env initial) =
       errors (validateContentStructure
         (put_file sparse_env (content_path ''locales'' ''fr'') (Parsed (emptyContent ''locales''))) initial) \<and>
     loadContentSafely sparse_env ''locales'' ''fr'' initial = (emptyContent ''locales'', initial) \<and>
     emptyContent ''locales'' = (if ''locales'' = ''locales'' then JObj [] else JArr []) \<and>
     validateCrossReferences sparse_env initial =
       validateCrossReferences
         (put_file sparse_env (content_path ''locales'' ''fr'') (Parsed (emptyContent ''locales''))) initial \<and>
     validateTranslationCompleteness sparse_env initial =
       validateTranslationCompleteness
         (put_file sparse_env (content_path ''locales'' ''fr'') (Parsed (emptyContent ''locales''))) initial \<and>
     validateContentQuality sparse_env initial =
       validateContentQuality
         (put_file sparse_env (content_path ''locales'' ''fr'') (Parsed (emptyContent ''locales''))) initial"
  by (rule absent_file_warns_and_counts_as_empty)
     (simp_all add: contentTypes_def supportedLanguages_def sparse_env_def content_path_def)



section \<open>Properties: translation completeness\<close>













lemma missing_gap:
  "(if filter (\<lambda>s. \<not> List.member other s) (first_occurrences baseline) = [] then []
    else [prefix @ join_strings '', '' (take n (filter (\<lambda>s. \<not> List.member other s) (first_occurrences baseline))) @
          (if n < length (filter (\<lambda>s. \<not> List.member other s) (first_occurrences baseline)) then ''...'' else [])]) =
   gap_warning prefix n baseline other"
  by (simp add: gap_warning_def Let_def)

lemma set_first_occurrences: "set (first_occurrences xs) = set xs"
  by (simp add: first_occurrences_def)

lemma filter_member_first:
  "filter (\<lambda>s. \<not> List.member (first_occurrences other) s) xs = filter (\<lambda>s. \<not> List.member other s) xs"
  by (simp add: set_first_occurrences)














section \<open>Properties: duplicate identifiers\<close>




















end
